theory Spec2Isabelle
  imports Complex_Main "HOL-Library.Multiset" "HOL-Library.Word"
begin

section \<open>Data model of the work planner (src/app.js, class WorkPlannerApp)\<close>

text \<open>
  A JavaScript string is the list of its UTF-16 code units, so that \<open>length\<close> is
  JavaScript's \<open>.length\<close>; \<open>str\<close> gives the string of a literal written in ASCII.
  Numbers are integers (the doubles of the source are exact on integers below \<open>2^53\<close>).
  A time stamp is the clock reading (milliseconds since the epoch) whose ISO rendering the
  code stores: \<open>toISOString\<close> keeps the order of readings, so comparing readings
  compares the stamps. An optional field of a JavaScript object is an \<open>option\<close>.
\<close>

type_synonym code_unit = "16 word"

type_synonym jsstring = "code_unit list"

definition str :: "string \<Rightarrow> jsstring" where
  "str cs = map of_char cs"

type_synonym clock_reading = nat

record Note =
  note_id :: jsstring
  note_title :: jsstring
  note_content :: jsstring
  note_tags :: "jsstring list"
  note_folder :: jsstring
  starred :: bool
  note_createdAt :: clock_reading
  note_updatedAt :: clock_reading
  wordCount :: int

record folder =
  folder_id :: jsstring
  folder_name :: jsstring
  folder_color :: jsstring
  folder_count :: int

record tag =
  tag_name :: jsstring
  tag_count :: int

record task =
  task_id :: jsstring
  task_title :: jsstring
  task_description :: jsstring
  task_column :: jsstring
  task_createdAt :: clock_reading
  task_dueDate :: "clock_reading option"
  task_priority :: jsstring
  task_tags :: "jsstring list"

record editor_prefs =
  fontSize :: int
  lineHeight :: rat
  wordWrap :: bool

record pomodoro_prefs =
  workDuration :: "int option"
  breakDuration :: "int option"

record settings =
  theme :: "jsstring option"
  editor :: "editor_prefs option"
  pomodoro :: "pomodoro_prefs option"
  autoSave :: "bool option"

text \<open>The five keys of localStorage; \<open>None\<close> is a key never written.\<close>

record storage =
  workplanner_notes :: "Note list option"
  workplanner_folders :: "folder list option"
  workplanner_tasks :: "task list option"
  workplanner_settings :: "settings option"
  workplanner_tags :: "tag list option"

datatype mode = Work | Break

text \<open>
  The messages handed to \<open>showNotification\<close>, by meaning (the source's texts are Chinese),
  each with the type string the source passes.
\<close>

datatype notice =
  WorkOver      \<comment> \<open>work time is over, take a break\<close>
| BreakOver     \<comment> \<open>break is over, back to work\<close>
| ImportDone    \<comment> \<open>data imported\<close>
| ImportFailed  \<comment> \<open>import failed: wrong file format\<close>
| ExportDone    \<comment> \<open>data exported\<close>

text \<open>
  The application object, with the parts of the browser it acts on:
  \<open>localStorage\<close>, the interval timers that are armed (\<open>setInterval\<close> hands out the
  handle \<open>next_handle\<close>), the calls made to \<open>showNotification\<close>, and whether the page
  has the element \<open>tagsCloud\<close> that \<open>renderTags\<close> looks for.
\<close>

record app =
  "notes" :: "Note list"
  folders :: "folder list"
  tags :: "tag list"
  tasks :: "task list"
  settings :: settings
  pomodoroTimer :: "nat option"
  pomodoroSeconds :: int
  pomodoroRunning :: bool
  pomodoroMode :: mode
  localStorage :: storage
  intervals :: "nat list"
  next_handle :: nat
  notifications :: "(notice \<times> jsstring) list"
  tagsCloud :: bool

definition orElse :: "'a option \<Rightarrow> 'a \<Rightarrow> 'a" where
  "orElse v d = (case v of None \<Rightarrow> d | Some x \<Rightarrow> x)"

text \<open>The object \<open>{}\<close> and the settings that \<open>loadData\<close> installs in its place.\<close>

definition emptySettings :: settings where
  "emptySettings = \<lparr>theme = None, editor = None, pomodoro = None, autoSave = None\<rparr>"

definition defaultSettings :: settings where
  "defaultSettings =
     \<lparr>theme = Some (str ''light''),
      editor = Some \<lparr>fontSize = 16, lineHeight = 16 / 10, wordWrap = True\<rparr>,
      pomodoro = Some \<lparr>workDuration = Some 25, breakDuration = Some 5\<rparr>,
      autoSave = Some True\<rparr>"

text \<open>
  The four folders that \<open>loadData\<close> installs when it finds none; their names are the
  two-character Chinese words of the source, by code unit.
\<close>

definition defaultFolders :: "folder list" where
  "defaultFolders =
     [\<lparr>folder_id = str ''work'', folder_name = [0x5DE5, 0x4F5C],
       folder_color = str ''#3b82f6'', folder_count = 0\<rparr>,
      \<lparr>folder_id = str ''study'', folder_name = [0x5B66, 0x4E60],
       folder_color = str ''#10b981'', folder_count = 0\<rparr>,
      \<lparr>folder_id = str ''ideas'', folder_name = [0x60F3, 0x6CD5],
       folder_color = str ''#f59e0b'', folder_count = 0\<rparr>,
      \<lparr>folder_id = str ''goals'', folder_name = [0x76EE, 0x6807],
       folder_color = str ''#ef4444'', folder_count = 0\<rparr>]"

definition emptyStorage :: storage where
  "emptyStorage =
     \<lparr>workplanner_notes = None, workplanner_folders = None, workplanner_tasks = None,
      workplanner_settings = None, workplanner_tags = None\<rparr>"

section \<open>Persistence\<close>

text \<open>
  Each \<open>save\<close> writes one key. \<open>JSON.stringify\<close> followed by \<open>JSON.parse\<close> gives
  back the records of this model as they were, so the storage holds the values themselves.
  \<open>saveNotes\<close> also calls \<open>updateStats\<close>, which only writes to the page, and then
  \<open>updateFolderCounts\<close>.
\<close>

definition saveFolders :: "app \<Rightarrow> app" where
  "saveFolders s = s\<lparr>localStorage := (localStorage s)\<lparr>workplanner_folders := Some (folders s)\<rparr>\<rparr>"

definition saveTasks :: "app \<Rightarrow> app" where
  "saveTasks s = s\<lparr>localStorage := (localStorage s)\<lparr>workplanner_tasks := Some (tasks s)\<rparr>\<rparr>"

definition saveSettings :: "app \<Rightarrow> app" where
  "saveSettings s = s\<lparr>localStorage := (localStorage s)\<lparr>workplanner_settings := Some (settings s)\<rparr>\<rparr>"

definition saveTags :: "app \<Rightarrow> app" where
  "saveTags s = s\<lparr>localStorage := (localStorage s)\<lparr>workplanner_tags := Some (tags s)\<rparr>\<rparr>"

definition notesIn :: "jsstring \<Rightarrow> Note list \<Rightarrow> int" where
  "notesIn fid ns = int (length (filter (\<lambda>n. note_folder n = fid) ns))"

text \<open>The \<open>forEach\<close> of \<open>updateFolderCounts\<close>: every folder's count is set from the notes.\<close>

definition recount :: "Note list \<Rightarrow> folder list \<Rightarrow> folder list" where
  "recount ns fs = map (\<lambda>f. f\<lparr>folder_count := notesIn (folder_id f) ns\<rparr>) fs"

definition updateFolderCounts :: "app \<Rightarrow> app" where
  "updateFolderCounts s = saveFolders (s\<lparr>folders := recount (notes s) (folders s)\<rparr>)"

definition saveNotes :: "app \<Rightarrow> app" where
  "saveNotes s =
     updateFolderCounts
       (s\<lparr>localStorage := (localStorage s)\<lparr>workplanner_notes := Some (notes s)\<rparr>\<rparr>)"

text \<open>
  \<open>loadData\<close>: a key that is not in storage reads as \<open>[]\<close> (as \<open>{}\<close> for the settings);
  no folders, and settings without a key, are replaced by the defaults and stored; the
  folder counts are recomputed last.
\<close>

definition loadData :: "app \<Rightarrow> app" where
  "loadData s =
     (let st = localStorage s;
          s1 = s\<lparr>notes := orElse (workplanner_notes st) [],
                 folders := orElse (workplanner_folders st) [],
                 tasks := orElse (workplanner_tasks st) [],
                 settings := orElse (workplanner_settings st) emptySettings,
                 tags := orElse (workplanner_tags st) []\<rparr>;
          s2 = (if folders s1 = [] then saveFolders (s1\<lparr>folders := defaultFolders\<rparr>) else s1);
          s3 = (if settings s2 = emptySettings
                then saveSettings (s2\<lparr>settings := defaultSettings\<rparr>) else s2)
      in updateFolderCounts s3)"

section \<open>The focus timer\<close>

definition showNotification :: "notice \<Rightarrow> jsstring \<Rightarrow> app \<Rightarrow> app" where
  "showNotification message type s = s\<lparr>notifications := notifications s @ [(message, type)]\<rparr>"

text \<open>
  \<open>this.settings.pomodoro?.workDuration * 60 || 25 * 60\<close>: a missing \<open>pomodoro\<close> or
  \<open>workDuration\<close> gives NaN, and NaN and 0 are falsy, so the default stands in for both.
\<close>

definition minutes_or :: "int option \<Rightarrow> int \<Rightarrow> int" where
  "minutes_or d dflt = (case d of None \<Rightarrow> dflt | Some m \<Rightarrow> if m * 60 = 0 then dflt else m * 60)"

definition workSeconds :: "settings \<Rightarrow> int" where
  "workSeconds st =
     minutes_or (case pomodoro st of None \<Rightarrow> None | Some p \<Rightarrow> workDuration p) (25 * 60)"

definition breakSeconds :: "settings \<Rightarrow> int" where
  "breakSeconds st =
     minutes_or (case pomodoro st of None \<Rightarrow> None | Some p \<Rightarrow> breakDuration p) (5 * 60)"

definition setupPomodoro :: "app \<Rightarrow> app" where
  "setupPomodoro s = s\<lparr>pomodoroSeconds := workSeconds (settings s)\<rparr>"

text \<open>\<open>startPomodoro\<close> arms a new interval and, as written, sets the mode to work.\<close>

definition startPomodoro :: "app \<Rightarrow> app" where
  "startPomodoro s =
     (if pomodoroRunning s then s
      else s\<lparr>pomodoroRunning := True,
             pomodoroMode := Work,
             pomodoroTimer := Some (next_handle s),
             intervals := intervals s @ [next_handle s],
             next_handle := Suc (next_handle s)\<rparr>)"

definition clearInterval :: "nat option \<Rightarrow> nat list \<Rightarrow> nat list" where
  "clearInterval h hs = (case h of None \<Rightarrow> hs | Some k \<Rightarrow> removeAll k hs)"

definition pausePomodoro :: "app \<Rightarrow> app" where
  "pausePomodoro s =
     (if \<not> pomodoroRunning s then s
      else s\<lparr>pomodoroRunning := False,
             intervals := clearInterval (pomodoroTimer s) (intervals s)\<rparr>)"

definition resetPomodoro :: "app \<Rightarrow> app" where
  "resetPomodoro s =
     (pausePomodoro s)\<lparr>pomodoroMode := Work, pomodoroSeconds := workSeconds (settings s)\<rparr>"

definition pomodoroFinished :: "app \<Rightarrow> app" where
  "pomodoroFinished s =
     (let s1 = pausePomodoro s;
          s2 = (if pomodoroMode s1 = Work
                then showNotification WorkOver (str ''success'')
                       (s1\<lparr>pomodoroMode := Break, pomodoroSeconds := breakSeconds (settings s1)\<rparr>)
                else showNotification BreakOver (str ''info'')
                       (s1\<lparr>pomodoroMode := Work, pomodoroSeconds := workSeconds (settings s1)\<rparr>))
      in startPomodoro s2)"

text \<open>The callback that \<open>startPomodoro\<close> hands to \<open>setInterval\<close>.\<close>

definition onInterval :: "app \<Rightarrow> app" where
  "onInterval s =
     (let s1 = s\<lparr>pomodoroSeconds := pomodoroSeconds s - 1\<rparr>
      in if pomodoroSeconds s1 \<le> 0 then pomodoroFinished s1 else s1)"

text \<open>
  One elapsed second: every interval armed at its start fires once, unless an earlier
  callback of the same second has cleared it. An interval armed during the second first
  fires a second later.
\<close>

definition tick :: "app \<Rightarrow> app" where
  "tick s = fold (\<lambda>h t. if h \<in> set (intervals t) then onInterval t else t) (intervals s) s"

definition ticks :: "nat \<Rightarrow> app \<Rightarrow> app" where
  "ticks n s = (tick ^^ n) s"

section \<open>Construction\<close>

text \<open>
  The constructor sets the fields and calls \<open>init\<close>; of the calls of \<open>init\<close>,
  \<open>loadData\<close> and \<open>setupPomodoro\<close> act on the object, the others on the page. The
  arguments are what the browser holds: the storage, and whether the page has the tag
  cloud.
\<close>

definition newApp :: "storage \<Rightarrow> bool \<Rightarrow> app" where
  "newApp st cloud =
     setupPomodoro
       (loadData
         \<lparr>notes = [], folders = [], tags = [], tasks = [], settings = emptySettings,
          pomodoroTimer = None, pomodoroSeconds = 25 * 60, pomodoroRunning = False,
          pomodoroMode = Work, localStorage = st, intervals = [], next_handle = 0,
          notifications = [], tagsCloud = cloud\<rparr>)"

text \<open>The application on its first run: nothing in storage, a page with the tag cloud.\<close>

definition freshApp :: app where
  "freshApp = newApp emptyStorage True"

section \<open>Notes\<close>

text \<open>\<open>Array.prototype.findIndex\<close>: the first index that satisfies, \<open>None\<close> for -1.\<close>

fun findIndex :: "('a \<Rightarrow> bool) \<Rightarrow> 'a list \<Rightarrow> nat option" where
  "findIndex P [] = None"
| "findIndex P (x # xs) = (if P x then Some 0 else map_option Suc (findIndex P xs))"

text \<open>\<open>Number.prototype.toString\<close> on a non-negative integer: its decimal digits.\<close>

definition digit :: "nat \<Rightarrow> code_unit" where
  "digit d = of_nat (48 + d)"

fun toString :: "nat \<Rightarrow> jsstring" where
  "toString n = (if n < 10 then [digit n] else toString (n div 10) @ [digit (n mod 10)])"

text \<open>
  One round of the \<open>forEach\<close> of \<open>updateTags\<close>: a new name is pushed with count 1, a
  known one has its count incremented (\<open>count++\<close>, exact below \<open>2^53\<close>).
\<close>

definition updateTag :: "jsstring \<Rightarrow> tag list \<Rightarrow> tag list" where
  "updateTag t ts =
     (case findIndex (\<lambda>x. tag_name x = t) ts of
        None \<Rightarrow> ts @ [\<lparr>tag_name = t, tag_count = 1\<rparr>]
      | Some i \<Rightarrow> ts[i := (ts ! i)\<lparr>tag_count := tag_count (ts ! i) + 1\<rparr>])"

definition updateTags :: "jsstring list \<Rightarrow> app \<Rightarrow> app" where
  "updateTags newTags s = saveTags (s\<lparr>tags := fold updateTag newTags (tags s)\<rparr>)"

text \<open>
  \<open>createNote\<close> reads the clock three times: \<open>Date.now()\<close> for the id and \<open>new Date()\<close>
  twice for the two stamps. The readings are arguments, in that order. The default
  arguments of the source are left to the caller.
\<close>

definition createNote ::
  "clock_reading \<Rightarrow> clock_reading \<Rightarrow> clock_reading \<Rightarrow>
   jsstring \<Rightarrow> jsstring \<Rightarrow> jsstring list \<Rightarrow> jsstring \<Rightarrow> app \<Rightarrow> Note \<times> app" where
  "createNote now created updated title content tgs fld s =
     (let note = \<lparr>note_id = toString now, note_title = title, note_content = content,
                  note_tags = tgs, note_folder = fld, starred = False,
                  note_createdAt = created, note_updatedAt = updated,
                  wordCount = int (length content)\<rparr>;
          s1 = saveNotes (s\<lparr>notes := note # notes s\<rparr>)
      in (note, updateTags tgs s1))"

text \<open>
  The \<open>updates\<close> object of \<open>updateNote\<close>: any subset of a note's fields. The fields
  \<open>updatedAt\<close> and \<open>wordCount\<close> are not listed, since the source overwrites them after
  the spread.
\<close>

record note_updates =
  upd_id :: "jsstring option"
  upd_title :: "jsstring option"
  upd_content :: "jsstring option"
  upd_tags :: "jsstring list option"
  upd_folder :: "jsstring option"
  upd_starred :: "bool option"
  upd_createdAt :: "clock_reading option"

definition noUpdates :: note_updates where
  "noUpdates = \<lparr>upd_id = None, upd_title = None, upd_content = None, upd_tags = None,
                 upd_folder = None, upd_starred = None, upd_createdAt = None\<rparr>"

text \<open>\<open>{...note, ...updates}\<close>\<close>

definition spread :: "Note \<Rightarrow> note_updates \<Rightarrow> Note" where
  "spread n u =
     n\<lparr>note_id := orElse (upd_id u) (note_id n),
       note_title := orElse (upd_title u) (note_title n),
       note_content := orElse (upd_content u) (note_content n),
       note_tags := orElse (upd_tags u) (note_tags n),
       note_folder := orElse (upd_folder u) (note_folder n),
       starred := orElse (upd_starred u) (starred n),
       note_createdAt := orElse (upd_createdAt u) (note_createdAt n)\<rparr>"

text \<open>
  \<open>updates.content ? updates.content.length : this.notes[index].content.length\<close>: the
  test is on the truthiness of the string, and the empty string is falsy; the fallback
  reads the note as it was before the assignment.
\<close>

definition newWordCount :: "Note \<Rightarrow> note_updates \<Rightarrow> int" where
  "newWordCount old u =
     (case upd_content u of
        None \<Rightarrow> int (length (note_content old))
      | Some c \<Rightarrow> if c \<noteq> [] then int (length c) else int (length (note_content old)))"

definition updateNote :: "clock_reading \<Rightarrow> jsstring \<Rightarrow> note_updates \<Rightarrow> app \<Rightarrow> app" where
  "updateNote now nid u s =
     (case findIndex (\<lambda>n. note_id n = nid) (notes s) of
        None \<Rightarrow> s
      | Some i \<Rightarrow>
          (let old = notes s ! i;
               new = (spread old u)\<lparr>note_updatedAt := now, wordCount := newWordCount old u\<rparr>;
               s1 = saveNotes (s\<lparr>notes := (notes s)[i := new]\<rparr>)
           in case upd_tags u of None \<Rightarrow> s1 | Some ts \<Rightarrow> updateTags ts s1))"

definition deleteNote :: "jsstring \<Rightarrow> app \<Rightarrow> app" where
  "deleteNote nid s =
     (case findIndex (\<lambda>n. note_id n = nid) (notes s) of
        None \<Rightarrow> s
      | Some i \<Rightarrow> saveNotes (s\<lparr>notes := take i (notes s) @ drop (Suc i) (notes s)\<rparr>))"

section \<open>Tags and folders\<close>

text \<open>
  \<open>Array.prototype.sort\<close> sorts the array itself and is stable; with the comparator
  \<open>(a, b) => b.count - a.count\<close> it is the stable sort by descending count.
  \<open>slice(0, limit)\<close> counts a negative limit from the end.
\<close>

definition sortByCount :: "tag list \<Rightarrow> tag list" where
  "sortByCount ts = sort_key (\<lambda>t. - tag_count t) ts"

definition slice0 :: "int \<Rightarrow> 'a list \<Rightarrow> 'a list" where
  "slice0 limit xs = take (nat (if limit < 0 then int (length xs) + limit else limit)) xs"

definition getPopularTags :: "int \<Rightarrow> app \<Rightarrow> tag list \<times> app" where
  "getPopularTags limit s =
     (let s1 = s\<lparr>tags := sortByCount (tags s)\<rparr> in (slice0 limit (tags s1), s1))"

text \<open>\<open>renderTags\<close> returns at once on a page without the element, else asks for 15 tags.\<close>

definition renderTags :: "app \<Rightarrow> app" where
  "renderTags s = (if \<not> tagsCloud s then s else snd (getPopularTags 15 s))"

text \<open>
  The class \<open>\s\<close> of a regular expression without the \<open>u\<close> flag, on code units: tab,
  line feed, vertical tab, form feed, carriage return, space, no-break space, U+1680,
  U+2000 to U+200A, the line and paragraph separators, U+202F, U+205F, U+3000 and U+FEFF.
\<close>

definition isWhitespace :: "code_unit \<Rightarrow> bool" where
  "isWhitespace c =
     (c \<in> {0x9, 0xA, 0xB, 0xC, 0xD, 0x20, 0xA0, 0x1680, 0x2028, 0x2029, 0x202F, 0x205F,
            0x3000, 0xFEFF}
      \<or> (0x2000 \<le> c \<and> c \<le> 0x200A))"

text \<open>
  \<open>replace(/\s+/g, '-')\<close>: from the left, each longest run of white space becomes one
  hyphen (code unit 45).
\<close>

function replaceWhitespace :: "jsstring \<Rightarrow> jsstring" where
  "replaceWhitespace [] = []"
| "replaceWhitespace (c # cs) =
     (if isWhitespace c then 0x2D # replaceWhitespace (dropWhile isWhitespace cs)
      else c # replaceWhitespace cs)"
  by pat_completeness auto
termination
  by (relation "measure length") (auto simp: le_imp_less_Suc length_dropWhile_le)

text \<open>
  \<open>String.prototype.toLowerCase\<close> is the engine's Unicode case mapping, a function from
  strings to strings (some characters lower-case to two code units). Its table is not part
  of the source, so \<open>createFolder\<close> takes it as its first argument.
\<close>

definition createFolder ::
  "(jsstring \<Rightarrow> jsstring) \<Rightarrow> jsstring \<Rightarrow> jsstring \<Rightarrow> app \<Rightarrow> folder \<times> app" where
  "createFolder toLowerCase name color s =
     (let folder = \<lparr>folder_id = replaceWhitespace (toLowerCase name), folder_name = name,
                    folder_color = color, folder_count = 0\<rparr>
      in (folder, saveFolders (s\<lparr>folders := folders s @ [folder]\<rparr>)))"

text \<open>
  What \<open>toLowerCase\<close> does on a string of ASCII characters: the capitals A to Z go to
  a to z.
\<close>

definition asciiLowerCase :: "jsstring \<Rightarrow> jsstring" where
  "asciiLowerCase cs = map (\<lambda>c. if 0x41 \<le> c \<and> c \<le> 0x5A then c + 0x20 else c) cs"

text \<open>
  The maximal runs of a string: it is cut wherever the class of the character changes.
  \<open>everyRunHyphenated\<close> replaces each run of white space, wherever it stands, by one hyphen.
\<close>

function runs :: "('a \<Rightarrow> bool) \<Rightarrow> 'a list \<Rightarrow> 'a list list" where
  "runs P [] = []"
| "runs P (x # xs) =
     (x # takeWhile (\<lambda>y. P y = P x) xs) # runs P (dropWhile (\<lambda>y. P y = P x) xs)"
  by pat_completeness auto
termination
  by (relation "measure (\<lambda>(P, xs). length xs)") (auto simp: le_imp_less_Suc length_dropWhile_le)

definition hyphenateRun :: "jsstring \<Rightarrow> jsstring" where
  "hyphenateRun r = (if isWhitespace (hd r) then [0x2D] else r)"

definition everyRunHyphenated :: "jsstring \<Rightarrow> jsstring" where
  "everyRunHyphenated cs = concat (map hyphenateRun (runs isWhitespace cs))"

text \<open>
  The slug in the words of the specification, for comparison with the code: the name is
  lower-cased and its internal runs of white space, those with other characters on both
  sides, are each replaced by a single hyphen. White space at the start and at the end of
  the name is not internal and stays as it is.
\<close>

definition slug_spec :: "(jsstring \<Rightarrow> jsstring) \<Rightarrow> jsstring \<Rightarrow> jsstring" where
  "slug_spec toLowerCase name =
     (let l = toLowerCase name;
          lead = takeWhile isWhitespace l;
          rest = dropWhile isWhitespace l;
          trail = rev (takeWhile isWhitespace (rev rest));
          core = rev (dropWhile isWhitespace (rev rest))
      in lead @ everyRunHyphenated core @ trail)"

definition noOuterWhitespace :: "jsstring \<Rightarrow> bool" where
  "noOuterWhitespace cs = (cs = [] \<or> \<not> (isWhitespace (hd cs) \<or> isWhitespace (last cs)))"

section \<open>Export and import\<close>

text \<open>
  The object that \<open>exportData\<close> serialises and \<open>importData\<close> reads back: each key is
  there or not, and a key that is there holds a collection of the documented shape (an
  array of note, folder, task or tag records, a settings object). A file that
  \<open>JSON.parse\<close> rejects is \<open>Unparseable\<close>. The \<open>catch\<close> of the source spans the whole
  handler, so a file that parses but holds a value of another shape under a key (a number
  for the notes, say) can also end in the failure notification, after the keys before the
  failing step have been taken; such files are outside \<open>import_file\<close>.
\<close>

record payload =
  p_notes :: "Note list option"
  p_folders :: "folder list option"
  p_tasks :: "task list option"
  p_settings :: "settings option"
  p_tags :: "tag list option"
  exportDate :: "clock_reading option"

datatype import_file = Unparseable | Parsed payload



text \<open>
  The \<open>onload\<close> handler of \<open>importData\<close>. \<open>if (data.notes)\<close> holds for every array and
  object, so a key that is there is taken. After the five keys \<open>renderFolders\<close>,
  \<open>renderNotes\<close> and \<open>updateStats\<close> only write to the page; \<open>renderTags\<close> calls
  \<open>getPopularTags\<close>.
\<close>

definition importNotes :: "payload \<Rightarrow> app \<Rightarrow> app" where
  "importNotes d s = (case p_notes d of None \<Rightarrow> s | Some v \<Rightarrow> saveNotes (s\<lparr>notes := v\<rparr>))"

definition importFolders :: "payload \<Rightarrow> app \<Rightarrow> app" where
  "importFolders d s = (case p_folders d of None \<Rightarrow> s | Some v \<Rightarrow> saveFolders (s\<lparr>folders := v\<rparr>))"

definition importTasks :: "payload \<Rightarrow> app \<Rightarrow> app" where
  "importTasks d s = (case p_tasks d of None \<Rightarrow> s | Some v \<Rightarrow> saveTasks (s\<lparr>tasks := v\<rparr>))"

definition importSettings :: "payload \<Rightarrow> app \<Rightarrow> app" where
  "importSettings d s = (case p_settings d of None \<Rightarrow> s | Some v \<Rightarrow> saveSettings (s\<lparr>settings := v\<rparr>))"

definition importTags :: "payload \<Rightarrow> app \<Rightarrow> app" where
  "importTags d s = (case p_tags d of None \<Rightarrow> s | Some v \<Rightarrow> saveTags (s\<lparr>tags := v\<rparr>))"

definition importData :: "import_file \<Rightarrow> app \<Rightarrow> app" where
  "importData file s =
     (case file of
        Unparseable \<Rightarrow> showNotification ImportFailed (str ''error'') s
      | Parsed d \<Rightarrow>
          showNotification ImportDone (str ''success'')
            (renderTags (importTags d (importSettings d (importTasks d
               (importFolders d (importNotes d s)))))))"

text \<open>The invariant of the folder counts.\<close>

definition countsAgree :: "app \<Rightarrow> bool" where
  "countsAgree s = list_all (\<lambda>f. folder_count f = notesIn (folder_id f) (notes s)) (folders s)"

section \<open>Concrete stores\<close>

text \<open>Small stores and payloads on which the theorems below are instantiated.\<close>

definition twoTags :: "tag list" where
  "twoTags = [\<lparr>tag_name = str ''a'', tag_count = 1\<rparr>, \<lparr>tag_name = str ''b'', tag_count = 2\<rparr>]"

definition abcApp :: app where
  "abcApp = snd (createNote 1000 1000 1000 (str ''t'') (str ''abc'') [] (str ''work'') freshApp)"

definition emptiedApp :: app where
  "emptiedApp = updateNote 2000 (str ''1000'') (noUpdates\<lparr>upd_content := Some []\<rparr>) abcApp"

definition workFolder :: folder where
  "workFolder =
     \<lparr>folder_id = str ''work'', folder_name = str ''Work'', folder_color = str ''#3b82f6'',
      folder_count = 0\<rparr>"

definition workNote :: Note where
  "workNote =
     \<lparr>note_id = str ''1000'', note_title = str ''t'', note_content = str ''abc'',
      note_tags = [], note_folder = str ''work'', starred = False, note_createdAt = 1000,
      note_updatedAt = 1000, wordCount = 3\<rparr>"

definition notesOnly :: payload where
  "notesOnly =
     \<lparr>p_notes = Some [workNote], p_folders = None, p_tasks = None,
      p_settings = None, p_tags = None, exportDate = Some 0\<rparr>"

definition notesAndFolders :: payload where
  "notesAndFolders = notesOnly\<lparr>p_folders := Some [workFolder]\<rparr>"


definition zeroWorkApp :: app where
  "zeroWorkApp =
     freshApp\<lparr>settings :=
       defaultSettings\<lparr>pomodoro := Some \<lparr>workDuration = Some 0, breakDuration = Some 5\<rparr>\<rparr>\<rparr>"

section \<open>The application on its first run\<close>

lemma defaultSettings_not_empty: "defaultSettings \<noteq> emptySettings"
  by (simp add: defaultSettings_def emptySettings_def)

lemma recount_defaultFolders: "recount [] defaultFolders = defaultFolders"
  by (simp add: recount_def defaultFolders_def notesIn_def)

lemma freshApp_eq:
  "freshApp =
     \<lparr>notes = [], folders = defaultFolders, tags = [], tasks = [], settings = defaultSettings,
      pomodoroTimer = None, pomodoroSeconds = 1500, pomodoroRunning = False,
      pomodoroMode = Work,
      localStorage = emptyStorage\<lparr>workplanner_folders := Some defaultFolders,
                                   workplanner_settings := Some defaultSettings\<rparr>,
      intervals = [], next_handle = 0, notifications = [], tagsCloud = True\<rparr>"
proof -
  have f: "defaultFolders \<noteq> []" by (simp add: defaultFolders_def)
  have w: "workSeconds defaultSettings = 1500"
    by (simp add: workSeconds_def minutes_or_def defaultSettings_def)
  show ?thesis
    by (simp add: freshApp_def newApp_def loadData_def Let_def orElse_def emptyStorage_def
        saveFolders_def saveSettings_def updateFolderCounts_def setupPomodoro_def
        recount_defaultFolders defaultSettings_not_empty f w)
qed

lemma freshApp_fields:
  "notes freshApp = []"
  "folders freshApp = defaultFolders"
  "tags freshApp = []"
  "tasks freshApp = []"
  "settings freshApp = defaultSettings"
  "pomodoroSeconds freshApp = 1500"
  "pomodoroRunning freshApp = False"
  "pomodoroMode freshApp = Work"
  "intervals freshApp = []"
  "next_handle freshApp = 0"
  "notifications freshApp = []"
  "tagsCloud freshApp = True"
  by (simp_all add: freshApp_eq)

section \<open>Timer: start and pause are idempotent\<close>

text \<open>
  C9. Starting the timer while it runs changes nothing (in particular no second interval
  is armed), and pausing a timer that does not run changes nothing (in particular the
  remaining seconds stay).
\<close>

theorem start_pause_noop:
  assumes "pomodoroRunning r" and "\<not> pomodoroRunning p"
  shows "startPomodoro r = r \<and> pausePomodoro p = p"
  using assms by (simp add: startPomodoro_def pausePomodoro_def)

theorem start_pause_noop_witness:
  "pomodoroRunning (startPomodoro freshApp) \<and> \<not> pomodoroRunning freshApp
   \<and> startPomodoro (startPomodoro freshApp) = startPomodoro freshApp
   \<and> intervals (startPomodoro (startPomodoro freshApp)) = [0]
   \<and> pausePomodoro freshApp = freshApp
   \<and> pomodoroSeconds (pausePomodoro freshApp) = 1500"
proof -
  have r: "pomodoroRunning (startPomodoro freshApp)"
    by (simp add: startPomodoro_def freshApp_fields)
  have p: "\<not> pomodoroRunning freshApp"
    by (simp add: freshApp_fields)
  have i: "intervals (startPomodoro freshApp) = [0]"
    by (simp add: startPomodoro_def freshApp_fields)
  have k: "pomodoroSeconds freshApp = 1500"
    by (simp add: freshApp_fields)
  from start_pause_noop [OF r p] r p i k show ?thesis by simp
qed

section \<open>Timer: reset\<close>

text \<open>
  C7, as amended. From any state, reset leaves the timer paused (not running, its interval
  cleared) and in work mode, and sets the remaining seconds to 60 times the work duration
  held in the settings at that moment; when no work duration is configured, or it is 0,
  the remaining seconds are 1500.
\<close>

theorem reset_yields_work:
  "pomodoroRunning (resetPomodoro s) = False
   \<and> pomodoroMode (resetPomodoro s) = Work
   \<and> pomodoroSeconds (resetPomodoro s) =
       (case pomodoro (settings s) of None \<Rightarrow> 1500
        | Some p \<Rightarrow> (case workDuration p of None \<Rightarrow> 1500
                     | Some m \<Rightarrow> if m = 0 then 1500 else m * 60))
   \<and> intervals (resetPomodoro s) =
       (if pomodoroRunning s then clearInterval (pomodoroTimer s) (intervals s) else intervals s)"
  by (simp add: resetPomodoro_def pausePomodoro_def workSeconds_def minutes_or_def
      split: option.splits)

text \<open>
  The claim as stated fails where the configured work duration is 0 minutes: the
  remaining seconds become 1500, not 0.
\<close>

theorem reset_zero_duration_counterexample:
  "(case pomodoro (settings zeroWorkApp) of None \<Rightarrow> None | Some p \<Rightarrow> workDuration p) = Some 0
   \<and> pomodoroSeconds (resetPomodoro zeroWorkApp) = 1500"
  by (simp add: resetPomodoro_def pausePomodoro_def workSeconds_def minutes_or_def
      zeroWorkApp_def)

section \<open>Timer: a full work period\<close>

lemma tick_single: "intervals s = [h] \<Longrightarrow> tick s = onInterval s"
  by (simp add: tick_def)

lemma ticks_Suc: "ticks (Suc n) s = tick (ticks n s)"
  by (simp add: ticks_def)

lemma ticks_countdown:
  "intervals s = [h] \<Longrightarrow> int n < pomodoroSeconds s \<Longrightarrow>
   ticks n s = s\<lparr>pomodoroSeconds := pomodoroSeconds s - int n\<rparr>"
proof (induction n)
  case 0
  then show ?case by (simp add: ticks_def)
next
  case (Suc n)
  then have "ticks n s = s\<lparr>pomodoroSeconds := pomodoroSeconds s - int n\<rparr>" by simp
  then show ?case using Suc.prems
    by (simp add: ticks_Suc tick_single [of _ h] onInterval_def Let_def algebra_simps)
qed

lemma started_fresh:
  "startPomodoro freshApp =
     freshApp\<lparr>pomodoroRunning := True, pomodoroMode := Work, pomodoroTimer := Some 0,
       intervals := [0], next_handle := Suc 0\<rparr>"
  by (simp add: startPomodoro_def freshApp_fields)

lemma one_second_left:
  "ticks 1499 (startPomodoro freshApp) = (startPomodoro freshApp)\<lparr>pomodoroSeconds := 1\<rparr>"
  using ticks_countdown [of "startPomodoro freshApp" 0 1499]
  by (simp add: started_fresh freshApp_fields)

text \<open>
  Completion ends in \<open>startPomodoro\<close>, which sets the mode to work: whatever the state,
  the machine leaves completion running in work mode.
\<close>

lemma finished_in_work_mode:
  "pomodoroMode (pomodoroFinished s) = Work \<and> pomodoroRunning (pomodoroFinished s)"
  by (simp add: pomodoroFinished_def Let_def startPomodoro_def pausePomodoro_def
      showNotification_def)

text \<open>
  C1, on the code. With the default durations, start and 1500 ticks: completion has run
  once (one notification, the interval re-armed, 300 seconds of break duration on the
  clock), and the machine is running in work mode, not in break mode.
\<close>

theorem default_cycle_ends_in_work_mode:
  "pomodoroMode (ticks 1500 (startPomodoro freshApp)) = Work
   \<and> pomodoroRunning (ticks 1500 (startPomodoro freshApp))
   \<and> pomodoroSeconds (ticks 1500 (startPomodoro freshApp)) = 300
   \<and> intervals (ticks 1500 (startPomodoro freshApp)) = [1]
   \<and> notifications (ticks 1500 (startPomodoro freshApp)) = [(WorkOver, str ''success'')]"
proof -
  have "ticks 1500 (startPomodoro freshApp) = tick (ticks 1499 (startPomodoro freshApp))"
    using ticks_Suc [of 1499] by simp
  also have "\<dots> = tick ((startPomodoro freshApp)\<lparr>pomodoroSeconds := 1\<rparr>)"
    by (simp only: one_second_left)
  also have "\<dots> = onInterval ((startPomodoro freshApp)\<lparr>pomodoroSeconds := 1\<rparr>)"
    by (rule tick_single [of _ 0]) (simp add: started_fresh)
  finally show ?thesis
    by (simp add: started_fresh onInterval_def Let_def pomodoroFinished_def pausePomodoro_def
        clearInterval_def showNotification_def startPomodoro_def breakSeconds_def minutes_or_def
        freshApp_fields defaultSettings_def)
qed

section \<open>Tags: the popularity query sorts the store\<close>

lemma desc_iff_sorted_neg:
  "sorted_wrt (\<lambda>a b. tag_count b \<le> tag_count a) ts = sorted (map (\<lambda>t. - tag_count t) ts)"
  by (simp add: sorted_map)

lemma sortByCount_fixes_iff:
  "sortByCount ts = ts \<longleftrightarrow> sorted_wrt (\<lambda>a b. tag_count b \<le> tag_count a) ts"
proof
  assume "sortByCount ts = ts"
  then have "sorted (map (\<lambda>t. - tag_count t) ts)"
    using sorted_sort_key [of "\<lambda>t. - tag_count t" ts] by (simp add: sortByCount_def)
  then show "sorted_wrt (\<lambda>a b. tag_count b \<le> tag_count a) ts"
    by (simp add: desc_iff_sorted_neg)
next
  assume "sorted_wrt (\<lambda>a b. tag_count b \<le> tag_count a) ts"
  then have "sorted (map (\<lambda>t. - tag_count t) ts)" by (simp add: desc_iff_sorted_neg)
  then show "sortByCount ts = ts"
    by (simp add: sortByCount_def sort_key_id_if_sorted)
qed

lemma sortByCount_desc: "sorted_wrt (\<lambda>a b. tag_count b \<le> tag_count a) (sortByCount ts)"
  by (simp add: desc_iff_sorted_neg sortByCount_def)

lemma mset_sortByCount: "mset (sortByCount ts) = mset ts"
  by (simp add: sortByCount_def)

text \<open>
  C10. \<open>getPopularTags\<close> is not a pure query. When the stored tags are not in descending
  order of count, one call leaves the store with its tags in another order (descending
  by count), holding the same tag records, names and counts unchanged; nothing else of
  the store changes, and the answer is the front of the reordered list.
\<close>

theorem getPopularTags_reorders_store:
  assumes "\<not> sorted_wrt (\<lambda>a b. tag_count b \<le> tag_count a) (tags s)"
  shows "tags (snd (getPopularTags limit s)) \<noteq> tags s
       \<and> mset (tags (snd (getPopularTags limit s))) = mset (tags s)
       \<and> sorted_wrt (\<lambda>a b. tag_count b \<le> tag_count a) (tags (snd (getPopularTags limit s)))
       \<and> fst (getPopularTags limit s) = slice0 limit (tags (snd (getPopularTags limit s)))
       \<and> snd (getPopularTags limit s) = s\<lparr>tags := sortByCount (tags s)\<rparr>"
  using assms
  by (simp add: getPopularTags_def Let_def sortByCount_fixes_iff sortByCount_desc mset_sortByCount)

theorem getPopularTags_reorders_store_witness:
  "tags (snd (getPopularTags 10 (freshApp\<lparr>tags := twoTags\<rparr>)))
     = [\<lparr>tag_name = str ''b'', tag_count = 2\<rparr>, \<lparr>tag_name = str ''a'', tag_count = 1\<rparr>]
   \<and> tags (snd (getPopularTags 10 (freshApp\<lparr>tags := twoTags\<rparr>))) \<noteq> twoTags
   \<and> mset (tags (snd (getPopularTags 10 (freshApp\<lparr>tags := twoTags\<rparr>)))) = mset twoTags"
proof -
  have h: "\<not> sorted_wrt (\<lambda>a b. tag_count b \<le> tag_count a) (tags (freshApp\<lparr>tags := twoTags\<rparr>))"
    by (simp add: twoTags_def)
  have e: "tags (snd (getPopularTags 10 (freshApp\<lparr>tags := twoTags\<rparr>)))
     = [\<lparr>tag_name = str ''b'', tag_count = 2\<rparr>, \<lparr>tag_name = str ''a'', tag_count = 1\<rparr>]"
    by (simp add: getPopularTags_def Let_def sortByCount_def twoTags_def)
  from getPopularTags_reorders_store [OF h, of 10] e show ?thesis by simp
qed

section \<open>Notes: identifiers\<close>

declare toString.simps [simp del]

lemma digit_inj: "a < 10 \<Longrightarrow> b < 10 \<Longrightarrow> digit a = digit b \<Longrightarrow> a = b"
proof -
  assume a: "a < 10" and b: "b < 10" and e: "digit a = digit b"
  from e have "unat (word_of_nat (48 + a) :: 16 word) = unat (word_of_nat (48 + b) :: 16 word)"
    by (simp only: digit_def)
  then have "(48 + a) mod 65536 = (48 + b) mod 65536"
    by (simp only: unat_of_nat) simp
  with a b show "a = b" by simp
qed

lemma toString_nonempty: "toString n \<noteq> []"
  by (subst toString.simps) simp

lemma toString_inj: "toString m = toString n \<Longrightarrow> m = n"
proof (induction m arbitrary: n rule: less_induct)
  case (less m)
  show ?case
  proof (cases "m < 10")
    case True
    then have m: "toString m = [digit m]" by (subst toString.simps) simp
    show ?thesis
    proof (cases "n < 10")
      case True
      then have "toString n = [digit n]" by (subst toString.simps) simp
      with m less.prems \<open>m < 10\<close> True show ?thesis by (simp add: digit_inj)
    next
      case False
      then have "toString n = toString (n div 10) @ [digit (n mod 10)]"
        by (subst toString.simps) simp
      with m less.prems show ?thesis by (simp add: toString_nonempty)
    qed
  next
    case False
    then have m: "toString m = toString (m div 10) @ [digit (m mod 10)]"
      by (subst toString.simps) simp
    show ?thesis
    proof (cases "n < 10")
      case True
      then have "toString n = [digit n]" by (subst toString.simps) simp
      with m less.prems toString_nonempty [of "m div 10"] show ?thesis by auto
    next
      case nf: False
      then have "toString n = toString (n div 10) @ [digit (n mod 10)]"
        by (subst toString.simps) simp
      with m less.prems have e: "toString (m div 10) = toString (n div 10)"
        and d: "digit (m mod 10) = digit (n mod 10)" by simp_all
      from False have "m div 10 < m" by simp
      from less.IH [OF this e] have q: "m div 10 = n div 10" .
      from d have r: "m mod 10 = n mod 10" by (simp add: digit_inj)
      from q r show ?thesis by (metis div_mult_mod_eq)
    qed
  qed
qed

lemma toString_1000: "toString 1000 = str ''1000''"
  by code_simp

lemma toString_2000: "toString 2000 = str ''2000''"
  by code_simp

section \<open>Frames of the store operations\<close>

lemma saveNotes_fields [simp]:
  "notes (saveNotes s) = notes s"
  "tags (saveNotes s) = tags s"
  "tasks (saveNotes s) = tasks s"
  "settings (saveNotes s) = settings s"
  "tagsCloud (saveNotes s) = tagsCloud s"
  "folders (saveNotes s) = recount (notes s) (folders s)"
  by (simp_all add: saveNotes_def updateFolderCounts_def saveFolders_def)

lemma updateTags_fields [simp]:
  "notes (updateTags ts s) = notes s"
  "folders (updateTags ts s) = folders s"
  "tasks (updateTags ts s) = tasks s"
  "settings (updateTags ts s) = settings s"
  by (simp_all add: updateTags_def saveTags_def)

lemma findIndex_Some: "findIndex P xs = Some i \<Longrightarrow> i < length xs \<and> P (xs ! i)"
proof (induction xs arbitrary: i)
  case Nil
  then show ?case by simp
next
  case (Cons x xs)
  then show ?case by (cases "P x") auto
qed

lemma notes_createNote:
  "notes (snd (createNote t c u ti co tg f s)) = fst (createNote t c u ti co tg f s) # notes s"
  by (simp add: createNote_def Let_def)

lemma note_id_createNote: "note_id (fst (createNote t c u ti co tg f s)) = toString t"
  by (simp add: createNote_def Let_def)

lemma notes_updateNote:
  "findIndex (\<lambda>n. note_id n = nid) (notes s) = Some i \<Longrightarrow>
   notes (updateNote now nid u s) =
     (notes s)[i := (spread (notes s ! i) u)\<lparr>note_updatedAt := now,
                    wordCount := newWordCount (notes s ! i) u\<rparr>]"
  by (simp add: updateNote_def Let_def split: option.splits)

text \<open>
  C4, as amended. Two \<open>createNote\<close> calls, both notes in the store afterwards, give
  their notes different ids exactly when their \<open>Date.now()\<close> readings (milliseconds)
  differ; two calls within the same millisecond give the same id.
\<close>

theorem createNote_ids:
  "notes (snd (createNote t2 c2 u2 ti2 co2 tg2 f2 (snd (createNote t1 c1 u1 ti1 co1 tg1 f1 s))))
     = fst (createNote t2 c2 u2 ti2 co2 tg2 f2 (snd (createNote t1 c1 u1 ti1 co1 tg1 f1 s)))
       # fst (createNote t1 c1 u1 ti1 co1 tg1 f1 s) # notes s
   \<and> (note_id (fst (createNote t1 c1 u1 ti1 co1 tg1 f1 s))
        = note_id (fst (createNote t2 c2 u2 ti2 co2 tg2 f2 s')) \<longleftrightarrow> t1 = t2)"
  using toString_inj [of t1 t2] by (auto simp add: notes_createNote note_id_createNote)

theorem createNote_ids_witness:
  "map note_id
     (notes (snd (createNote 2000 2000 2000 (str ''b'') [] [] []
               (snd (createNote 1000 1000 1000 (str ''a'') [] [] [] freshApp)))))
   = [str ''2000'', str ''1000'']"
proof -
  from createNote_ids [of 2000 2000 2000 "str ''b''" "[]" "[]" "[]"
      1000 1000 1000 "str ''a''" "[]" "[]" "[]" freshApp]
  show ?thesis by (simp add: freshApp_fields note_id_createNote toString_1000 toString_2000)
qed

text \<open>
  The claim as stated fails: two notes created at the same clock reading are both in the
  store with the same id.
\<close>

theorem createNote_same_reading_counterexample:
  "map note_id
     (notes (snd (createNote 1000 1000 1000 (str ''b'') [] [] []
               (snd (createNote 1000 1000 1000 (str ''a'') [] [] [] freshApp)))))
   = [str ''1000'', str ''1000'']"
  by (simp add: notes_createNote note_id_createNote toString_1000 freshApp_fields)

section \<open>Notes: word count and time stamp on update\<close>

text \<open>
  C2, as amended. \<open>updateNote\<close> acts on the first note of the store that carries the
  id, and leaves every other note as it was (a later note with the same id included).
  For an id carried by a note of the store and an update whose content field is absent
  or a non-empty string: afterwards that note's content is the given content, or the
  previous one when none is given; its wordCount is the length of that content (so
  without a content field wordCount is recomputed from the existing content); its
  updatedAt is the clock reading of the call, whatever that reading is, and so it is at
  least the previous updatedAt whenever the previous stamp is not later than the reading.
\<close>

theorem updateNote_wordCount:
  assumes "findIndex (\<lambda>n. note_id n = nid) (notes s) = Some i"
      and "upd_content u \<noteq> Some []"
  shows "note_content (notes (updateNote now nid u s) ! i)
           = orElse (upd_content u) (note_content (notes s ! i))
       \<and> wordCount (notes (updateNote now nid u s) ! i)
           = int (length (note_content (notes (updateNote now nid u s) ! i)))
       \<and> note_updatedAt (notes (updateNote now nid u s) ! i) = now
       \<and> (note_updatedAt (notes s ! i) \<le> now \<longrightarrow>
            note_updatedAt (notes s ! i) \<le> note_updatedAt (notes (updateNote now nid u s) ! i))
       \<and> (notes (updateNote now nid u s))[i := notes s ! i] = notes s"
proof -
  from findIndex_Some [OF assms(1)] have i: "i < length (notes s)" by simp
  show ?thesis using assms(2) i
    by (simp add: notes_updateNote [OF assms(1)] spread_def newWordCount_def orElse_def
        split: option.splits)
qed

lemma abcApp_notes: "notes abcApp = [workNote]"
  by (simp add: abcApp_def createNote_def Let_def toString_1000 freshApp_fields workNote_def
      str_def)

lemma abc_found: "findIndex (\<lambda>n. note_id n = str ''1000'') (notes abcApp) = Some 0"
  by (simp add: abcApp_notes workNote_def)

theorem updateNote_wordCount_witness:
  "wordCount (notes (updateNote 2000 (str ''1000'') (noUpdates\<lparr>upd_content := Some (str ''hello'')\<rparr>) abcApp) ! 0) = 5
   \<and> note_updatedAt (notes (updateNote 2000 (str ''1000'') (noUpdates\<lparr>upd_content := Some (str ''hello'')\<rparr>) abcApp) ! 0) = 2000
   \<and> note_updatedAt (notes abcApp ! 0) = 1000"
proof -
  have c: "upd_content (noUpdates\<lparr>upd_content := Some (str ''hello'')\<rparr>) \<noteq> Some []"
    by (simp add: str_def)
  have t: "note_updatedAt (notes abcApp ! 0) = 1000" by (simp add: abcApp_notes workNote_def)
  from updateNote_wordCount [OF abc_found c, of 2000] t show ?thesis
    by (simp add: orElse_def str_def)
qed

lemma emptiedApp_notes:
  "notes emptiedApp = [workNote\<lparr>note_content := [], note_updatedAt := 2000\<rparr>]"
  unfolding emptiedApp_def
  by (simp only: notes_updateNote [OF abc_found])
     (simp add: abcApp_notes spread_def newWordCount_def orElse_def noUpdates_def workNote_def
        str_def)

lemma emptied_found: "findIndex (\<lambda>n. note_id n = str ''1000'') (notes emptiedApp) = Some 0"
  by (simp add: emptiedApp_notes workNote_def)

text \<open>
  The claim as stated fails. On the note created with content \<open>abc\<close>: an update whose
  content is the empty string leaves wordCount at 3 beside a content of length 0; a later
  update without a content field then changes wordCount from 3 to 0; and an update made
  at a clock reading (500) before the note's stamp (1000) lowers updatedAt.
\<close>

theorem updateNote_counterexample:
  "wordCount (notes emptiedApp ! 0) = 3
   \<and> length (note_content (notes emptiedApp ! 0)) = 0
   \<and> wordCount (notes (updateNote 3000 (str ''1000'') (noUpdates\<lparr>upd_starred := Some True\<rparr>) emptiedApp) ! 0) = 0
   \<and> note_updatedAt (notes abcApp ! 0) = 1000
   \<and> note_updatedAt (notes (updateNote 500 (str ''1000'') (noUpdates\<lparr>upd_content := Some (str ''hello'')\<rparr>) abcApp) ! 0) = 500"
  by (simp add: notes_updateNote [OF emptied_found] notes_updateNote [OF abc_found]
      emptiedApp_notes abcApp_notes spread_def newWordCount_def orElse_def noUpdates_def
      workNote_def)

section \<open>Import\<close>

lemmas import_defs =
  importData_def importNotes_def importFolders_def importTasks_def importSettings_def
  importTags_def saveNotes_def updateFolderCounts_def saveFolders_def saveTasks_def
  saveSettings_def saveTags_def renderTags_def getPopularTags_def showNotification_def Let_def

lemma import_notes: "notes (importData (Parsed d) s) = orElse (p_notes d) (notes s)"
  by (simp add: import_defs orElse_def split: option.splits)

lemma import_folders:
  "folders (importData (Parsed d) s) =
     (case p_folders d of Some fs \<Rightarrow> fs
      | None \<Rightarrow> (case p_notes d of None \<Rightarrow> folders s | Some ns \<Rightarrow> recount ns (folders s)))"
  by (simp add: import_defs split: option.splits)









section \<open>Export followed by import\<close>




section \<open>Folder counts\<close>

lemma countsAgree_cong:
  "notes t = notes s \<Longrightarrow> folders t = folders s \<Longrightarrow> countsAgree t = countsAgree s"
  by (simp add: countsAgree_def)

lemma countsAgree_saveNotes: "countsAgree (saveNotes s)"
  by (simp add: countsAgree_def recount_def list_all_iff)

lemma countsAgree_updateTags: "countsAgree (updateTags ts s) = countsAgree s"
  by (rule countsAgree_cong) simp_all

lemma countsAgree_createNote: "countsAgree (snd (createNote t c u ti co tg f s))"
  by (simp add: createNote_def Let_def countsAgree_updateTags countsAgree_saveNotes)

lemma countsAgree_updateNote:
  "findIndex (\<lambda>n. note_id n = nid) (notes s) \<noteq> None \<Longrightarrow> countsAgree (updateNote now nid u s)"
  by (auto simp add: updateNote_def Let_def countsAgree_updateTags countsAgree_saveNotes
      split: option.splits)

lemma countsAgree_deleteNote:
  "findIndex (\<lambda>n. note_id n = nid) (notes s) \<noteq> None \<Longrightarrow> countsAgree (deleteNote nid s)"
  by (auto simp add: deleteNote_def countsAgree_saveNotes)

lemma countsAgree_import:
  "p_notes d \<noteq> None \<Longrightarrow> p_folders d = None \<Longrightarrow> countsAgree (importData (Parsed d) s)"
  by (auto simp add: countsAgree_def import_notes import_folders orElse_def recount_def
      list_all_iff)

text \<open>
  C3, as amended. After \<open>createNote\<close> on any store; after \<open>updateNote\<close> or \<open>deleteNote\<close>
  of an id that is in the store; and after the import of a file that parses to an object
  of the documented shape with notes and without folders: every folder's count is the
  number of notes whose folder is that folder's id. An import that carries folders
  installs them with the counts the payload gives.
\<close>

theorem counts_agree_after_note_mutation:
  "countsAgree (snd (createNote t c u ti co tg f s))
   \<and> (findIndex (\<lambda>n. note_id n = nid) (notes s) \<noteq> None \<longrightarrow>
        countsAgree (updateNote now nid upd s) \<and> countsAgree (deleteNote nid s))
   \<and> (p_notes d \<noteq> None \<and> p_folders d = None \<longrightarrow> countsAgree (importData (Parsed d) s))
   \<and> folders (importData (Parsed (d\<lparr>p_folders := Some fs\<rparr>)) s) = fs"
  by (simp add: countsAgree_createNote countsAgree_updateNote countsAgree_deleteNote
      countsAgree_import import_folders)

lemma abcApp_folders: "map folder_count (folders abcApp) = [1, 0, 0, 0]"
  by (simp add: abcApp_def createNote_def Let_def freshApp_fields recount_def notesIn_def
      defaultFolders_def str_def)

theorem counts_agree_after_note_mutation_witness:
  "countsAgree abcApp
   \<and> map folder_count (folders abcApp) = [1, 0, 0, 0]
   \<and> countsAgree (updateNote 2000 (str ''1000'') (noUpdates\<lparr>upd_folder := Some []\<rparr>) abcApp)
   \<and> countsAgree (deleteNote (str ''1000'') abcApp)
   \<and> countsAgree (importData (Parsed notesOnly) abcApp)"
proof -
  have n: "p_notes notesOnly \<noteq> None \<and> p_folders notesOnly = None"
    by (simp add: notesOnly_def)
  have f: "findIndex (\<lambda>n. note_id n = str ''1000'') (notes abcApp) \<noteq> None"
    by (simp add: abc_found)
  have c: "countsAgree abcApp"
    unfolding abcApp_def
    using counts_agree_after_note_mutation
      [of 1000 1000 1000 "str ''t''" "str ''abc''" "[]" "str ''work''" freshApp]
    by simp
  from counts_agree_after_note_mutation
         [of _ _ _ _ _ _ _ abcApp "str ''1000''" 2000 "noUpdates\<lparr>upd_folder := Some []\<rparr>" notesOnly]
       n f c abcApp_folders
  show ?thesis by simp
qed

text \<open>
  The claim as stated fails: a payload with one note in folder \<open>work\<close> and the folder
  \<open>work\<close> with count 0 is imported, and the count stays 0.
\<close>

theorem import_folders_counts_counterexample:
  "\<not> countsAgree (importData (Parsed notesAndFolders) freshApp)"
  by (simp add: countsAgree_def import_notes import_folders notesAndFolders_def notesOnly_def
      orElse_def workFolder_def workNote_def notesIn_def)

section \<open>Folders: creation\<close>

lemma replaceWhitespace_plain:
  "replaceWhitespace cs =
     takeWhile (\<lambda>y. \<not> isWhitespace y) cs
       @ replaceWhitespace (dropWhile (\<lambda>y. \<not> isWhitespace y) cs)"
  by (induction cs) simp_all

lemma replaceWhitespace_runs: "replaceWhitespace cs = everyRunHyphenated cs"
proof (induction cs rule: length_induct)
  case (1 cs)
  show ?case
  proof (cases cs)
    case Nil
    then show ?thesis by (simp add: everyRunHyphenated_def)
  next
    case (Cons c rest)
    show ?thesis
    proof (cases "isWhitespace c")
      case True
      then have p: "(\<lambda>y. isWhitespace y = isWhitespace c) = isWhitespace" by auto
      have "length (dropWhile isWhitespace rest) < length cs"
        using Cons by (simp add: le_imp_less_Suc length_dropWhile_le)
      with 1 have "replaceWhitespace (dropWhile isWhitespace rest) =
        everyRunHyphenated (dropWhile isWhitespace rest)" by blast
      with True Cons p show ?thesis by (simp add: everyRunHyphenated_def hyphenateRun_def)
    next
      case False
      then have p: "(\<lambda>y. isWhitespace y = isWhitespace c) = (\<lambda>y. \<not> isWhitespace y)" by auto
      have "length (dropWhile (\<lambda>y. \<not> isWhitespace y) rest) < length cs"
        using Cons by (simp add: le_imp_less_Suc length_dropWhile_le)
      with 1 have "replaceWhitespace (dropWhile (\<lambda>y. \<not> isWhitespace y) rest) =
        everyRunHyphenated (dropWhile (\<lambda>y. \<not> isWhitespace y) rest)" by blast
      with False Cons p replaceWhitespace_plain [of rest] show ?thesis
        by (simp add: everyRunHyphenated_def hyphenateRun_def)
    qed
  qed
qed

lemma no_leading: "xs \<noteq> [] \<Longrightarrow> \<not> P (hd xs) \<Longrightarrow> takeWhile P xs = [] \<and> dropWhile P xs = xs"
  by (cases xs) simp_all

lemma slug_spec_no_outer:
  assumes "noOuterWhitespace (lc name)"
  shows "slug_spec lc name = everyRunHyphenated (lc name)"
proof (cases "lc name = []")
  case True
  then show ?thesis by (simp add: slug_spec_def Let_def)
next
  case False
  with assms have h: "\<not> isWhitespace (hd (lc name))" and l: "\<not> isWhitespace (last (lc name))"
    by (simp_all add: noOuterWhitespace_def)
  from False h have a: "takeWhile isWhitespace (lc name) = [] \<and> dropWhile isWhitespace (lc name) = lc name"
    by (rule no_leading)
  from False l have "rev (lc name) \<noteq> [] \<and> \<not> isWhitespace (hd (rev (lc name)))"
    by (simp add: hd_rev)
  then have b: "takeWhile isWhitespace (rev (lc name)) = []
      \<and> dropWhile isWhitespace (rev (lc name)) = rev (lc name)"
    by (simp add: no_leading)
  from a b show ?thesis by (simp add: slug_spec_def Let_def)
qed

lemma createFolder_id:
  "folder_id (fst (createFolder lc name color s)) = everyRunHyphenated (lc name)"
  by (simp add: createFolder_def Let_def replaceWhitespace_runs)

lemma createFolder_folders:
  "folders (snd (createFolder lc name color s)) = folders s @ [fst (createFolder lc name color s)]"
  by (simp add: createFolder_def Let_def saveFolders_def)

lemma lower_my_folder: "asciiLowerCase (str ''My  Folder'') = str ''my  folder''"
  by code_simp

lemma lower_my_folder_lower: "asciiLowerCase (str ''my folder'') = str ''my folder''"
  by code_simp

lemma slug_my_folder: "everyRunHyphenated (str ''my  folder'') = str ''my-folder''"
  by code_simp

lemma slug_my_folder_lower: "everyRunHyphenated (str ''my folder'') = str ''my-folder''"
  by code_simp

lemma no_outer_my_folder: "noOuterWhitespace (str ''my  folder'')"
  by code_simp

text \<open>
  C8, as amended. For every name, \<open>createFolder\<close> gives a folder whose id is the
  lower-cased name with every run of white space, a run at the start or at the end of
  the name included, replaced by a single hyphen, and whose count is 0. The folder is
  appended to the folders (and stored) whatever ids are there already, so that two names
  with the same such slug leave two records with one id. Where the lower-cased name
  neither starts nor ends with white space, the id is the slug of the specification's
  words (internal runs replaced).
\<close>

theorem createFolder_slug:
  "folder_id (fst (createFolder lc name color s)) = everyRunHyphenated (lc name)
   \<and> folder_name (fst (createFolder lc name color s)) = name
   \<and> folder_color (fst (createFolder lc name color s)) = color
   \<and> folder_count (fst (createFolder lc name color s)) = 0
   \<and> folders (snd (createFolder lc name color s))
        = folders s @ [fst (createFolder lc name color s)]
   \<and> workplanner_folders (localStorage (snd (createFolder lc name color s)))
        = Some (folders s @ [fst (createFolder lc name color s)])
   \<and> folders (snd (createFolder lc name' color' (snd (createFolder lc name color s))))
        = folders s @ [fst (createFolder lc name color s), fst (createFolder lc name' color' s)]
   \<and> (everyRunHyphenated (lc name) = everyRunHyphenated (lc name') \<longrightarrow>
        folder_id (fst (createFolder lc name color s))
          = folder_id (fst (createFolder lc name' color' s)))
   \<and> (noOuterWhitespace (lc name) \<longrightarrow>
        folder_id (fst (createFolder lc name color s)) = slug_spec lc name)"
  by (simp add: createFolder_id slug_spec_no_outer)
     (simp add: createFolder_def Let_def saveFolders_def)

theorem createFolder_slug_witness:
  "map folder_id
     (folders (snd (createFolder asciiLowerCase (str ''my folder'') (str ''#111'')
                (snd (createFolder asciiLowerCase (str ''My  Folder'') (str ''#000'') freshApp)))))
   = [str ''work'', str ''study'', str ''ideas'', str ''goals'', str ''my-folder'', str ''my-folder'']
   \<and> slug_spec asciiLowerCase (str ''My  Folder'') = str ''my-folder''"
proof -
  have e: "everyRunHyphenated (asciiLowerCase (str ''My  Folder''))
         = everyRunHyphenated (asciiLowerCase (str ''my folder''))"
    by (simp add: lower_my_folder lower_my_folder_lower slug_my_folder slug_my_folder_lower)
  have o: "noOuterWhitespace (asciiLowerCase (str ''My  Folder''))"
    by (simp add: lower_my_folder no_outer_my_folder)
  have d: "map folder_id defaultFolders = [str ''work'', str ''study'', str ''ideas'', str ''goals'']"
    by (simp add: defaultFolders_def)
  from createFolder_slug [of asciiLowerCase "str ''My  Folder''" "str ''#000''" freshApp
      "str ''my folder''" "str ''#111''"] e o d
  show ?thesis
    by (simp add: freshApp_fields createFolder_id lower_my_folder lower_my_folder_lower
        slug_my_folder slug_my_folder_lower)
qed

text \<open>
  The claim as stated fails on a name that starts with white space: for the name of a
  space and the letter a, the id is a hyphen and the letter a, where the slug of the
  specification's words keeps the space, which is not internal.
\<close>

theorem createFolder_leading_space_counterexample:
  "folder_id (fst (createFolder asciiLowerCase (str '' a'') (str ''#000'') freshApp)) = str ''-a''
   \<and> slug_spec asciiLowerCase (str '' a'') = str '' a''"
proof -
  have a: "everyRunHyphenated (asciiLowerCase (str '' a'')) = str ''-a''" by code_simp
  have b: "slug_spec asciiLowerCase (str '' a'') = str '' a''" by code_simp
  from a b show ?thesis by (simp add: createFolder_id)
qed

end
